theory Spec2Isabelle
  imports Complex_Main
begin

section \<open>Data model\<close>

text \<open>
  The notebook's one routine, \<^verbatim>\<open>solve_qubo(Q, sampler="CPU", k=10, chain_strength=None)\<close>,
  receives a numpy array, a backend tag, a repeat count and an optional chain strength.

  A float64 value is a finite number, an infinity or NaN. The finite numbers a float64
  can hold are the results of \<open>round64\<close> below; the sign of zero is not modelled.
\<close>

datatype float64 = Finite real | PosInf | NegInf | NaN

text \<open>
  The integer dtypes: signed and unsigned, of a width in bits (int8 to int64, uint8 to
  uint64). A value of a signed dtype of width \<open>w\<close> is an integer from \<open>-2^(w-1)\<close> up to
  \<open>2^(w-1) - 1\<close>, a value of an unsigned one an integer from 0 up to \<open>2^w - 1\<close>, and the
  arithmetic of the dtype wraps around.
\<close>

datatype int_dtype = Signed nat | Unsigned nat

abbreviation int64 :: int_dtype where
  "int64 \<equiv> Signed 64"

abbreviation int8 :: int_dtype where
  "int8 \<equiv> Signed 8"

text \<open>
  A numpy array is its shape (one length per axis) and its entries in row-major order,
  held in the array's dtype: an integer dtype (the notebook builds its matrix with
  \<^verbatim>\<open>np.zeros((n, n), dtype=int)\<close>, which is int64) or float64, numpy's default.
  Arrays of the remaining dtypes (the narrower floats, complex numbers, booleans,
  objects) are outside the model.
\<close>

datatype np_items = IntItems int_dtype "int list" | Float64 "float64 list"

record ndarray =
  shape :: "nat list"
  items :: np_items

text \<open>A numpy scalar, as \<^verbatim>\<open>np.max\<close> returns it: it keeps the dtype of the array.\<close>

datatype np_scalar = IntScalar int_dtype int | F64 float64

text \<open>
  The values a caller can hand over as \<^verbatim>\<open>Q\<close>: Python is untyped, so the first
  assertion of the routine has something to reject.
\<close>

datatype py_value =
    NdArray ndarray
  | PyList "py_value list"
  | PyNum real
  | PyStr string
  | PyNone

datatype py_error =
    AssertionError
  | IndexError
  | ValueError
  | OverflowError
  | SolverError

text \<open>
  One row of \<^verbatim>\<open>response.data(["sample", "energy"])\<close>: the assignment of the
  variables and the energy the sampler reports for it. A response is the sequence of
  these rows in the order the iteration yields them.
\<close>

record sample_row =
  sample :: "nat \<rightharpoonup> int"
  energy :: real

record sample_set =
  data :: "sample_row list"

text \<open>
  Everything the routine does to the outside world, in program order: the two progress
  lines, the two clock readings, the construction of the sampler objects and the one
  \<^verbatim>\<open>sample_qubo\<close> call with its arguments (the chain strength is \<open>None\<close> when
  the keyword is not passed).
\<close>

datatype event =
    PrintSolving nat nat string
  | ReadClock
  | NewSimulatedAnnealingSampler
  | NewDWaveSampler
  | NewAutoEmbeddingComposite
  | SampleQubo ndarray int "real option"
  | PrintSolved

text \<open>
  The two samplers belong to external libraries. They are parameters of the model: what
  the local annealer answers to \<^verbatim>\<open>sample_qubo(Q, num_reads=k)\<close>, whether the
  hardware sampler can be constructed, and what it answers to
  \<^verbatim>\<open>sample_qubo(Q, num_reads=k, chain_strength=c)\<close>. The annealers are
  stochastic; an environment fixes the answers of one run.
\<close>

record solver_env =
  sample_cpu :: "ndarray \<Rightarrow> int \<Rightarrow> py_error + sample_set"
  new_qpu :: "py_error option"
  sample_qpu :: "ndarray \<Rightarrow> int \<Rightarrow> real \<Rightarrow> py_error + sample_set"

section \<open>Array and builtin operations used by the routine\<close>

text \<open>\<^verbatim>\<open>Q.shape[0]\<close>: indexing the empty shape tuple of a 0-dimensional array raises.\<close>

definition shape0 :: "ndarray \<Rightarrow> py_error + nat" where
  "shape0 Q = (case shape Q of [] \<Rightarrow> Inl IndexError | n # _ \<Rightarrow> Inr n)"

text \<open>
  \<^verbatim>\<open>len(Q[Q != 0])\<close>: the entries selected by the mask, counted. An infinity and
  NaN differ from 0.
\<close>

definition count_nonzero :: "ndarray \<Rightarrow> nat" where
  "count_nonzero Q =
     (case items Q of
        IntItems d xs \<Rightarrow> length (filter (\<lambda>x. x \<noteq> 0) xs)
      | Float64 xs \<Rightarrow> length (filter (\<lambda>x. x \<noteq> Finite 0) xs))"

text \<open>
  The wrap-around of integer arithmetic in a dtype of width \<open>w\<close>: the exact result
  modulo \<open>2^w\<close>, read as signed or as unsigned.
\<close>

fun wrap :: "int_dtype \<Rightarrow> int \<Rightarrow> int" where
  "wrap (Signed w) x = (x + 2 ^ (w - 1)) mod 2 ^ w - 2 ^ (w - 1)"
| "wrap (Unsigned w) x = x mod 2 ^ w"

fun fabs :: "float64 \<Rightarrow> float64" where
  "fabs (Finite x) = Finite \<bar>x\<bar>"
| "fabs PosInf = PosInf"
| "fabs NegInf = PosInf"
| "fabs NaN = NaN"

text \<open>
  \<^verbatim>\<open>np.abs\<close>, entry by entry in the dtype of the array: the absolute value of the
  least value of a signed dtype wraps around to itself.
\<close>

definition np_abs :: "ndarray \<Rightarrow> ndarray" where
  "np_abs Q =
     Q\<lparr>items := (case items Q of
                   IntItems d xs \<Rightarrow> IntItems d (map (\<lambda>x. wrap d \<bar>x\<bar>) xs)
                 | Float64 xs \<Rightarrow> Float64 (map fabs xs))\<rparr>"

text \<open>The larger of two float64 values, as \<^verbatim>\<open>np.max\<close> takes it: NaN wins.\<close>

fun fmax :: "float64 \<Rightarrow> float64 \<Rightarrow> float64" where
  "fmax NaN b = NaN"
| "fmax a NaN = NaN"
| "fmax PosInf b = PosInf"
| "fmax a PosInf = PosInf"
| "fmax NegInf b = b"
| "fmax a NegInf = a"
| "fmax (Finite x) (Finite y) = Finite (max x y)"

text \<open>\<^verbatim>\<open>np.max\<close> over all entries; it raises on an array without entries.\<close>

definition np_max :: "ndarray \<Rightarrow> py_error + np_scalar" where
  "np_max Q =
     (case items Q of
        IntItems d [] \<Rightarrow> Inl ValueError
      | IntItems d (x # xs) \<Rightarrow> Inr (IntScalar d (fold max xs x))
      | Float64 [] \<Rightarrow> Inl ValueError
      | Float64 (x # xs) \<Rightarrow> Inr (F64 (fold fmax xs x)))"

text \<open>
  Rounding of an exact result to float64, to nearest with ties to the even mantissa: a
  number of binary exponent \<open>e\<close> is rounded to a multiple of \<open>2^(e - 52)\<close>, the
  exponent is at least \<open>-1022\<close> (below it the numbers are subnormal), and a result that
  reaches \<open>2^1024\<close> is an infinity.
\<close>

definition round_half_even :: "real \<Rightarrow> int" where
  "round_half_even q =
     (let f = \<lfloor>q\<rfloor>; d = q - of_int f in
      if d < 1 / 2 then f
      else if 1 / 2 < d then f + 1
      else if even f then f else f + 1)"

definition round64 :: "real \<Rightarrow> float64" where
  "round64 x =
     (if x = 0 then Finite 0
      else
        let e = max \<lfloor>log 2 \<bar>x\<bar>\<rfloor> (- 1022);
            ulp = 2 powi (e - 52);
            r = of_int (round_half_even (x / ulp)) * ulp
        in if 2 ^ 1024 \<le> \<bar>r\<bar> then (if 0 < x then PosInf else NegInf) else Finite r)"

text \<open>
  \<^verbatim>\<open>10 * m\<close> for a numpy scalar \<open>m\<close>: the product stays in the dtype of \<open>m\<close>. The
  integer product wraps around, the float64 product is rounded. (For int64 and float64
  every numpy version computes it so; for the other integer dtypes this is the rule of
  numpy 2, and numpy 1 promotes the product to a wider type.)
\<close>

fun times10 :: "np_scalar \<Rightarrow> np_scalar" where
  "times10 (IntScalar d m) = IntScalar d (wrap d (10 * m))"
| "times10 (F64 (Finite x)) = F64 (round64 (10 * x))"
| "times10 (F64 PosInf) = F64 PosInf"
| "times10 (F64 NegInf) = F64 NegInf"
| "times10 (F64 NaN) = F64 NaN"

text \<open>Truncation of a finite number towards zero.\<close>

definition py_trunc :: "real \<Rightarrow> int" where
  "py_trunc x = (if 0 \<le> x then \<lfloor>x\<rfloor> else \<lceil>x\<rceil>)"

text \<open>
  \<^verbatim>\<open>int(m)\<close> on a numpy scalar: the value of an integer, a finite float64 truncated
  towards zero; it raises OverflowError on an infinity and ValueError on NaN.
\<close>

fun py_int :: "np_scalar \<Rightarrow> py_error + int" where
  "py_int (IntScalar d m) = Inr m"
| "py_int (F64 (Finite x)) = Inr (py_trunc x)"
| "py_int (F64 PosInf) = Inl OverflowError"
| "py_int (F64 NegInf) = Inl OverflowError"
| "py_int (F64 NaN) = Inl ValueError"

text \<open>\<^verbatim>\<open>int(10 * np.max(np.abs(Q)))\<close>\<close>

definition default_chain_strength :: "ndarray \<Rightarrow> py_error + real" where
  "default_chain_strength Q =
     (case np_max (np_abs Q) of
        Inl e \<Rightarrow> Inl e
      | Inr m \<Rightarrow>
          (case py_int (times10 m) of
             Inl e \<Rightarrow> Inl e
           | Inr c \<Rightarrow> Inr (of_int c)))"

text \<open>
  The builtin \<^verbatim>\<open>min(iterable, key=f)\<close>: it raises on an empty iterable, and
  otherwise walks the items once, replacing the candidate only by an item whose key is
  strictly smaller.
\<close>

fun min_loop :: "('a \<Rightarrow> real) \<Rightarrow> 'a \<Rightarrow> 'a list \<Rightarrow> 'a" where
  "min_loop key best [] = best"
| "min_loop key best (x # xs) =
     (if key x < key best then min_loop key x xs else min_loop key best xs)"

definition py_min :: "('a \<Rightarrow> real) \<Rightarrow> 'a list \<Rightarrow> py_error + 'a" where
  "py_min key xs = (case xs of [] \<Rightarrow> Inl ValueError | x # rest \<Rightarrow> Inr (min_loop key x rest))"

section \<open>The routine\<close>

type_synonym outcome = "event list \<times> (py_error + sample_row \<times> sample_set)"

text \<open>
  The tail of the routine, after the sampler has answered: second clock reading, the
  timing line, the reduction of the ensemble, the return.
\<close>

definition reduce_response :: "event list \<Rightarrow> sample_set \<Rightarrow> outcome" where
  "reduce_response tr response =
     (let tr' = tr @ [ReadClock, PrintSolved] in
      case py_min energy (data response) of
        Inl e \<Rightarrow> (tr', Inl e)
      | Inr solution \<Rightarrow> (tr', Inr (solution, response)))"

text \<open>
  \<^verbatim>\<open>solve_qubo\<close>. The result is the trace of effects up to the return or the
  exception, and the returned pair \<^verbatim>\<open>(solution, response)\<close> or the exception.
  The two \<^verbatim>\<open>assert\<close> statements are executed (the interpreter does not run
  with \<^verbatim>\<open>-O\<close>), and the backend selector is a string.
\<close>

definition solve_qubo ::
  "solver_env \<Rightarrow> py_value \<Rightarrow> string \<Rightarrow> int \<Rightarrow> real option \<Rightarrow> outcome" where
  "solve_qubo env Q sampler k chain_strength =
     (case Q of
        NdArray a \<Rightarrow>
          if sampler \<notin> set [''CPU'', ''QPU''] then ([], Inl AssertionError)
          else
            (case shape0 a of
               Inl e \<Rightarrow> ([], Inl e)
             | Inr n \<Rightarrow>
                 let nz = count_nonzero a;
                     tr0 = [PrintSolving n nz sampler, ReadClock]
                 in
                   if sampler = ''CPU'' then
                     (let tr1 = tr0 @ [NewSimulatedAnnealingSampler, SampleQubo a k None] in
                      case sample_cpu env a k of
                        Inl e \<Rightarrow> (tr1, Inl e)
                      | Inr response \<Rightarrow> reduce_response tr1 response)
                   else
                     (case (case chain_strength of
                              None \<Rightarrow> default_chain_strength a
                            | Some c \<Rightarrow> Inr c) of
                        Inl e \<Rightarrow> (tr0, Inl e)
                      | Inr c \<Rightarrow>
                          (case new_qpu env of
                             Some e \<Rightarrow> (tr0 @ [NewDWaveSampler], Inl e)
                           | None \<Rightarrow>
                               (let tr1 = tr0 @ [NewDWaveSampler, NewAutoEmbeddingComposite,
                                                 SampleQubo a k (Some c)] in
                                case sample_qpu env a k c of
                                  Inl e \<Rightarrow> (tr1, Inl e)
                                | Inr response \<Rightarrow> reduce_response tr1 response))))
      | _ \<Rightarrow> ([], Inl AssertionError))"

section \<open>Reading the trace\<close>

text \<open>The \<^verbatim>\<open>sample_qubo\<close> calls of a trace, with their arguments.\<close>

fun sample_qubo_calls :: "event list \<Rightarrow> (ndarray \<times> int \<times> real option) list" where
  "sample_qubo_calls [] = []"
| "sample_qubo_calls (SampleQubo Q k c # tr) = (Q, k, c) # sample_qubo_calls tr"
| "sample_qubo_calls (_ # tr) = sample_qubo_calls tr"

text \<open>Whether a trace reaches the constructor call of a solver object.\<close>

definition constructs_solver :: "event list \<Rightarrow> bool" where
  "constructs_solver tr \<longleftrightarrow>
     NewSimulatedAnnealingSampler \<in> set tr \<or> NewDWaveSampler \<in> set tr"

section \<open>Notions of the specification\<close>

text \<open>
  The entries as real numbers, for the formulas of the specification. These formulas are
  about matrices of finite entries; an infinity or NaN is read as 0 here.
\<close>

fun float_real :: "float64 \<Rightarrow> real" where
  "float_real (Finite x) = x"
| "float_real PosInf = 0"
| "float_real NegInf = 0"
| "float_real NaN = 0"

definition item_reals :: "ndarray \<Rightarrow> real list" where
  "item_reals Q =
     (case items Q of
        IntItems d xs \<Rightarrow> map of_int xs
      | Float64 xs \<Rightarrow> map float_real xs)"

text \<open>
  A square matrix: two axes of the same length, with one entry per position.
  A non-square matrix: two axes of different lengths.
\<close>

definition is_square :: "ndarray \<Rightarrow> bool" where
  "is_square Q =
     (case shape Q of [m, n] \<Rightarrow> m = n \<and> length (item_reals Q) = m * n | _ \<Rightarrow> False)"

definition is_non_square :: "ndarray \<Rightarrow> bool" where
  "is_non_square Q =
     (case shape Q of [m, n] \<Rightarrow> m \<noteq> n \<and> length (item_reals Q) = m * n | _ \<Rightarrow> False)"

text \<open>\<^verbatim>\<open>Q[i, j]\<close> of a two-dimensional array, for a position inside it.\<close>

definition entry :: "ndarray \<Rightarrow> nat \<Rightarrow> nat \<Rightarrow> real" where
  "entry Q i j = item_reals Q ! (i * (shape Q ! 1) + j)"

text \<open>The value \<open>x\<^sub>i\<close> of a sample; a variable the sample does not mention counts as 0.\<close>

definition var_value :: "(nat \<rightharpoonup> int) \<Rightarrow> nat \<Rightarrow> real" where
  "var_value x i = (case x i of None \<Rightarrow> 0 | Some v \<Rightarrow> of_int v)"

text \<open>
  The QUBO objective in the words of the specification: the sum over all pairs
  \<open>i \<le> j\<close>, diagonal included, of \<open>x\<^sub>i * Q[i,j] * x\<^sub>j\<close>.
\<close>

definition qubo_objective :: "ndarray \<Rightarrow> (nat \<rightharpoonup> int) \<Rightarrow> real" where
  "qubo_objective Q x =
     (\<Sum>i\<leftarrow>[0..<shape Q ! 0]. \<Sum>j\<leftarrow>[i..<shape Q ! 0].
        var_value x i * entry Q i j * var_value x j)"






section \<open>The external samplers\<close>

text \<open>
  The samplers themselves (the local simulated annealer of dimod and the hosted hardware
  sampler) are library code outside the notebook; the source only calls them. What they
  return is taken from the specification.
\<close>

text \<open>
  Modelled from the spec: the energy computation of the samplers is missing from the
  source. "Response/ensemble: an ordered collection of (sample, energy) pairs produced by
  one solver invocation; energy is the QUBO objective value for that sample."
\<close>

definition reports_objective :: "ndarray \<Rightarrow> sample_set \<Rightarrow> bool" where
  "reports_objective Q r \<longleftrightarrow> (\<forall>e \<in> set (data r). energy e = qubo_objective Q (sample e))"

text \<open>
  Modelled from the spec: the same sentence, for every answer either sampler gives on
  the matrix \<open>Q\<close>.
\<close>

definition energy_contract :: "solver_env \<Rightarrow> ndarray \<Rightarrow> bool" where
  "energy_contract env Q \<longleftrightarrow>
     (\<forall>k r. sample_cpu env Q k = Inr r \<longrightarrow> reports_objective Q r) \<and>
     (\<forall>k c r. sample_qpu env Q k c = Inr r \<longrightarrow> reports_objective Q r)"

text \<open>
  Modelled from the spec: the sampling loop of the local annealer is missing from the
  source. "Ensemble size returned equals k (one sample per requested repeat), for the
  local backend."
\<close>

definition one_entry_per_read :: "int \<Rightarrow> sample_set \<Rightarrow> bool" where
  "one_entry_per_read k r \<longleftrightarrow> length (data r) = nat k"


text \<open>
  A deterministic stand-in for both samplers, for concrete runs: it answers every call
  with the given ensemble, and the hardware sampler can be constructed.
\<close>

definition replay_env :: "sample_set \<Rightarrow> solver_env" where
  "replay_env r =
     \<lparr>sample_cpu = (\<lambda>Q k. Inr r), new_qpu = None, sample_qpu = (\<lambda>Q k c. Inr r)\<rparr>"




text \<open>
  A two-variable instance, upper triangular, with its four assignments and their
  objective values: 0 for (0,0) and (1,1), -1 for (1,0) and (0,1).
\<close>

definition Q_two :: ndarray where
  "Q_two = \<lparr>shape = [2, 2], items = IntItems int64 [-1, 2, 0, -1]\<rparr>"

definition ensemble_two :: sample_set where
  "ensemble_two =
     \<lparr>data = [\<lparr>sample = [0 \<mapsto> 1, 1 \<mapsto> 1], energy = 0\<rparr>,
              \<lparr>sample = [0 \<mapsto> 1, 1 \<mapsto> 0], energy = -1\<rparr>,
              \<lparr>sample = [0 \<mapsto> 0, 1 \<mapsto> 1], energy = -1\<rparr>]\<rparr>"


definition Q_wide :: ndarray where
  "Q_wide = \<lparr>shape = [1, 2], items = IntItems int64 [3, 0]\<rparr>"

definition Q_none :: ndarray where
  "Q_none = \<lparr>shape = [0, 3], items = Float64 []\<rparr>"



section \<open>Properties of the builtin minimum\<close>

lemma min_loop_mem: "min_loop key b xs \<in> set (b # xs)"
  by (induction xs arbitrary: b) auto

lemma min_loop_le_all: "\<forall>y \<in> set (b # xs). key (min_loop key b xs) \<le> key y"
proof (induction xs arbitrary: b)
  case Nil
  then show ?case by simp
next
  case (Cons x xs)
  show ?case
  proof (cases "key x < key b")
    case True
    with Cons.IH [of x] show ?thesis by fastforce
  next
    case False
    with Cons.IH [of b] show ?thesis by fastforce
  qed
qed

lemma min_loop_le: "y \<in> set (b # xs) \<Longrightarrow> key (min_loop key b xs) \<le> key y"
  using min_loop_le_all [of b xs key] by blast

lemma min_loop_first:
  "\<exists>i \<le> length xs. (b # xs) ! i = min_loop key b xs \<and>
     (\<forall>j < i. key (min_loop key b xs) < key ((b # xs) ! j))"
proof (induction xs arbitrary: b)
  case Nil
  then show ?case by simp
next
  case (Cons x xs)
  show ?case
  proof (cases "key x < key b")
    case True
    from Cons.IH [of x] obtain i where i: "i \<le> length xs" "(x # xs) ! i = min_loop key x xs"
      "\<forall>j < i. key (min_loop key x xs) < key ((x # xs) ! j)" by blast
    have le: "key (min_loop key x xs) \<le> key x" by (rule min_loop_le) simp
    have "\<forall>j < Suc i. key (min_loop key x xs) < key ((b # x # xs) ! j)"
    proof (intro allI impI)
      fix j assume "j < Suc i"
      then show "key (min_loop key x xs) < key ((b # x # xs) ! j)"
        using i(3) le True by (cases j) auto
    qed
    with i(1,2) True show ?thesis
      by (intro exI [of _ "Suc i"]) simp
  next
    case False
    from Cons.IH [of b] obtain i where i: "i \<le> length xs" "(b # xs) ! i = min_loop key b xs"
      "\<forall>j < i. key (min_loop key b xs) < key ((b # xs) ! j)" by blast
    show ?thesis
    proof (cases i)
      case 0
      with i False show ?thesis by (intro exI [of _ 0]) simp
    next
      case (Suc i')
      have lt: "key (min_loop key b xs) < key b" using i(3) Suc by force
      have "\<forall>j < Suc (Suc i'). key (min_loop key b xs) < key ((b # x # xs) ! j)"
      proof (intro allI impI)
        fix j assume j: "j < Suc (Suc i')"
        show "key (min_loop key b xs) < key ((b # x # xs) ! j)"
        proof (cases j)
          case 0
          with lt show ?thesis by simp
        next
          case (Suc j')
          show ?thesis
          proof (cases j')
            case 0
            with Suc lt False show ?thesis by simp
          next
            case (Suc j'')
            with \<open>j = Suc j'\<close> j \<open>i = Suc i'\<close> i(3) have "key (min_loop key b xs) < key ((b # xs) ! Suc j'')"
              by auto
            with Suc \<open>j = Suc j'\<close> show ?thesis by simp
          qed
        qed
      qed
      with i(1,2) Suc False show ?thesis
        by (intro exI [of _ "Suc (Suc i')"]) simp
    qed
  qed
qed

lemma py_min_Inr:
  "py_min key xs = Inr m \<Longrightarrow> xs \<noteq> [] \<and> m \<in> set xs \<and> (\<forall>y \<in> set xs. key m \<le> key y)"
  unfolding py_min_def using min_loop_mem [of key] min_loop_le [of _ _ _ key]
  by (auto split: list.splits)

lemma py_min_first:
  assumes "py_min key xs = Inr m"
  shows "\<exists>i < length xs. xs ! i = m \<and> (\<forall>j < i. key m < key (xs ! j))"
proof (cases xs)
  case Nil
  with assms show ?thesis by (simp add: py_min_def)
next
  case (Cons b rest)
  with assms have m: "m = min_loop key b rest" by (simp add: py_min_def)
  from min_loop_first [of rest b key] Cons m show ?thesis
    by (auto simp: less_Suc_eq_le)
qed

lemma py_min_Min:
  assumes "py_min key xs = Inr m"
  shows "key m = Min (key ` set xs)"
proof -
  from py_min_Inr [OF assms] have "key m \<in> key ` set xs" "\<forall>v \<in> key ` set xs. key m \<le> v"
    by auto
  then show ?thesis by (intro Min_eqI [symmetric]) auto
qed

section \<open>The paths through the routine\<close>

lemma reduce_response_Inr:
  "reduce_response tr0 r = (tr, Inr (sol, resp)) \<Longrightarrow> resp = r \<and> py_min energy (data r) = Inr sol"
  by (auto simp: reduce_response_def Let_def split: sum.splits)

lemma fst_reduce_response: "fst (reduce_response tr r) = tr @ [ReadClock, PrintSolved]"
  by (simp add: reduce_response_def Let_def split: sum.splits)


lemma solve_qubo_returns:
  assumes "solve_qubo env Q sampler k cs = (tr, Inr (sol, resp))"
  shows "py_min energy (data resp) = Inr sol"
    and "\<exists>a. Q = NdArray a \<and>
           (sampler = ''CPU'' \<and> sample_cpu env a k = Inr resp \<or>
            sampler = ''QPU'' \<and> (\<exists>c. sample_qpu env a k c = Inr resp))"
  using assms
  by (auto simp: solve_qubo_def Let_def split: py_value.splits if_splits sum.splits option.splits
      dest!: reduce_response_Inr)

lemma floor_log2_eq:
  assumes "0 < x" "2 powi k \<le> x" "x < 2 powi (k + 1)"
  shows "\<lfloor>log 2 x\<rfloor> = k"
proof -
  have "(2::real) powr real_of_int k = 2 powi k"
    by (simp add: powr_real_of_int')
  moreover have "(2::real) powr (real_of_int k + 1) = 2 powi (k + 1)"
    using powr_real_of_int' [of "2::real" "k + 1"] by simp
  ultimately show ?thesis
    using assms by (subst floor_log_eq_powr_iff) simp_all
qed


lemma round_half_even_tie:
  "round_half_even (of_int n + 1 / 2) = (if even n then n else n + 1)"
proof -
  have "\<lfloor>real_of_int n + 1 / 2\<rfloor> = n" by linarith
  then show ?thesis by (simp add: round_half_even_def)
qed

lemma round64_eq:
  assumes "x \<noteq> 0" and "\<lfloor>log 2 \<bar>x\<bar>\<rfloor> = e" and "- 1022 \<le> e"
    and "round_half_even (x / 2 powi (e - 52)) = m"
    and "\<bar>of_int m * 2 powi (e - 52)\<bar> < (2::real) ^ 1024"
  shows "round64 x = Finite (of_int m * 2 powi (e - 52))"
  using assms by (simp add: round64_def Let_def max_def)


lemma round64_07: "round64 (10 * (3152519739159347 / 2 ^ 52)) = Finite 7"
proof -
  have e: "\<lfloor>log 2 \<bar>10 * (3152519739159347 / 2 ^ 52) :: real\<bar>\<rfloor> = 2"
    by (rule floor_log2_eq) (simp_all add: power_int_def)
  have u: "(2::real) powi (2 - 52) = 1 / 2 ^ 50"
    by (simp add: power_int_def power_divide)
  have q: "(10 * (3152519739159347 / 2 ^ 52) :: real) / 2 powi (2 - 52) =
           of_int 7881299347898367 + 1 / 2"
    unfolding u by simp
  have m: "round_half_even ((10 * (3152519739159347 / 2 ^ 52) :: real) / 2 powi (2 - 52)) =
           7881299347898368"
    unfolding q round_half_even_tie by simp
  have "round64 (10 * (3152519739159347 / 2 ^ 52)) =
        Finite (of_int 7881299347898368 * 2 powi (2 - 52))"
    by (rule round64_eq [OF _ e _ m]) (simp_all add: u)
  then show ?thesis by (simp add: u)
qed




lemma py_int_error: "py_int s = Inl e \<Longrightarrow> e = ValueError \<or> e = OverflowError"
  by (cases s rule: py_int.cases) auto

lemma default_chain_strength_error:
  "default_chain_strength Q = Inl e \<Longrightarrow> e = ValueError \<or> e = OverflowError"
  by (auto simp: default_chain_strength_def np_max_def split: sum.splits np_items.splits list.splits
      dest: py_int_error)




lemma trace_cpu:
  "shape Q = n # ns \<Longrightarrow>
   \<exists>rest. fst (solve_qubo env (NdArray Q) ''CPU'' k cs) =
     [PrintSolving n (count_nonzero Q) ''CPU'', ReadClock, NewSimulatedAnnealingSampler,
      SampleQubo Q k None] @ rest"
  by (simp add: solve_qubo_def shape0_def Let_def fst_reduce_response split: sum.splits)

lemma trace_qpu:
  "shape Q = n # ns \<Longrightarrow> cs \<noteq> None \<or> (\<exists>c. default_chain_strength Q = Inr c) \<Longrightarrow>
   \<exists>rest. fst (solve_qubo env (NdArray Q) ''QPU'' k cs) =
     [PrintSolving n (count_nonzero Q) ''QPU'', ReadClock, NewDWaveSampler] @ rest"
  by (cases cs)
     (auto simp: solve_qubo_def shape0_def Let_def fst_reduce_response
      split: sum.splits option.splits)


lemma raise_qpu:
  "shape Q = n # ns \<Longrightarrow> default_chain_strength Q = Inl e \<Longrightarrow>
   solve_qubo env (NdArray Q) ''QPU'' k None =
     ([PrintSolving n (count_nonzero Q) ''QPU'', ReadClock], Inl e)"
  by (simp add: solve_qubo_def shape0_def Let_def)







text \<open>The run used as a concrete instance below: the local backend on the two-variable
  instance, three reads.\<close>

lemma run_two_cpu:
  "solve_qubo (replay_env ensemble_two) (NdArray Q_two) ''CPU'' 3 cs =
     ([PrintSolving 2 3 ''CPU'', ReadClock, NewSimulatedAnnealingSampler,
       SampleQubo Q_two 3 None, ReadClock, PrintSolved],
      Inr (\<lparr>sample = [0 \<mapsto> 1, 1 \<mapsto> 0], energy = -1\<rparr>, ensemble_two))"
  by (simp add: solve_qubo_def replay_env_def shape0_def count_nonzero_def
      reduce_response_def py_min_def Q_two_def ensemble_two_def)

lemma reports_two: "reports_objective Q_two ensemble_two"
  by (simp add: reports_objective_def ensemble_two_def qubo_objective_def Q_two_def
      entry_def item_reals_def var_value_def upt_rec)

section \<open>The reduction of the ensemble\<close>

text \<open>
  C1. Whenever \<^verbatim>\<open>solve_qubo\<close> returns (for every input, so in particular for
  every square matrix and every repeat count \<open>k \<ge> 1\<close>), the ensemble it returns is
  not empty, the energy of the returned solution is the minimum of the energies over
  that ensemble, and taking the minimum over the same ensemble again yields the same
  solution.
\<close>

theorem solve_qubo_energy_is_minimum:
  assumes "solve_qubo env Q sampler k cs = (tr, Inr (solution, response))"
  shows "data response \<noteq> [] \<and>
         energy solution = Min (energy ` set (data response)) \<and>
         py_min energy (data response) = Inr solution"
proof -
  have m: "py_min energy (data response) = Inr solution"
    using assms by (rule solve_qubo_returns(1))
  from py_min_Inr [OF m] have "data response \<noteq> []" by simp
  moreover from py_min_Min [OF m] have "energy solution = Min (energy ` set (data response))" .
  ultimately show ?thesis using m by simp
qed

theorem solve_qubo_energy_is_minimum_witness:
  "solve_qubo (replay_env ensemble_two) (NdArray Q_two) ''CPU'' 3 None =
     ([PrintSolving 2 3 ''CPU'', ReadClock, NewSimulatedAnnealingSampler,
       SampleQubo Q_two 3 None, ReadClock, PrintSolved],
      Inr (\<lparr>sample = [0 \<mapsto> 1, 1 \<mapsto> 0], energy = -1\<rparr>, ensemble_two)) \<and>
   data ensemble_two \<noteq> [] \<and>
   energy \<lparr>sample = [0 \<mapsto> 1, 1 \<mapsto> 0], energy = -1\<rparr> = Min (energy ` set (data ensemble_two)) \<and>
   py_min energy (data ensemble_two) = Inr \<lparr>sample = [0 \<mapsto> 1, 1 \<mapsto> 0], energy = -1\<rparr>"
  using solve_qubo_energy_is_minimum [OF run_two_cpu [of None]] run_two_cpu [of None]
  by blast

text \<open>
  C6. Whenever \<^verbatim>\<open>solve_qubo\<close> returns, the solution is an entry of the returned
  ensemble whose energy no entry undercuts, and every entry before it in ensemble order
  has a strictly larger energy: among several entries of minimum energy, the solution is
  the first.
\<close>

theorem solve_qubo_first_minimum:
  assumes "solve_qubo env Q sampler k cs = (tr, Inr (solution, response))"
  shows "\<exists>i < length (data response).
           data response ! i = solution \<and>
           (\<forall>e \<in> set (data response). energy solution \<le> energy e) \<and>
           (\<forall>j < i. energy solution < energy (data response ! j))"
proof -
  have m: "py_min energy (data response) = Inr solution"
    using assms by (rule solve_qubo_returns(1))
  from py_min_first [OF m] obtain i where
    "i < length (data response)" "data response ! i = solution"
    "\<forall>j < i. energy solution < energy (data response ! j)" by blast
  with py_min_Inr [OF m] show ?thesis by blast
qed

theorem solve_qubo_first_minimum_witness:
  "solve_qubo (replay_env ensemble_two) (NdArray Q_two) ''CPU'' 3 None =
     ([PrintSolving 2 3 ''CPU'', ReadClock, NewSimulatedAnnealingSampler,
       SampleQubo Q_two 3 None, ReadClock, PrintSolved],
      Inr (\<lparr>sample = [0 \<mapsto> 1, 1 \<mapsto> 0], energy = -1\<rparr>, ensemble_two)) \<and>
   energy (data ensemble_two ! 1) = energy (data ensemble_two ! 2) \<and>
   (\<exists>i < length (data ensemble_two).
      data ensemble_two ! i = \<lparr>sample = [0 \<mapsto> 1, 1 \<mapsto> 0], energy = -1\<rparr> \<and>
      (\<forall>e \<in> set (data ensemble_two).
         energy \<lparr>sample = [0 \<mapsto> 1, 1 \<mapsto> 0], energy = -1\<rparr> \<le> energy e) \<and>
      (\<forall>j < i. energy \<lparr>sample = [0 \<mapsto> 1, 1 \<mapsto> 0], energy = -1\<rparr>
                 < energy (data ensemble_two ! j)))"
proof -
  have "energy (data ensemble_two ! 1) = energy (data ensemble_two ! 2)"
    by (simp add: ensemble_two_def)
  with solve_qubo_first_minimum [OF run_two_cpu [of None]] run_two_cpu [of None]
  show ?thesis by blast
qed

section \<open>Input validation\<close>

text \<open>
  C5. For every backend selector other than \<^verbatim>\<open>"CPU"\<close> and \<^verbatim>\<open>"QPU"\<close>,
  whatever the other arguments, \<^verbatim>\<open>solve_qubo\<close> raises AssertionError with an
  empty trace: nothing is printed, no solver object is constructed, no sampler is called.
\<close>

theorem solve_qubo_bad_sampler:
  assumes "sampler \<notin> set [''CPU'', ''QPU'']"
  shows "solve_qubo env Q sampler k cs = ([], Inl AssertionError)"
  using assms by (cases Q) (simp_all add: solve_qubo_def)

theorem solve_qubo_bad_sampler_witness:
  "''GPU'' \<notin> set [''CPU'', ''QPU''] \<and>
   solve_qubo (replay_env ensemble_two) (NdArray Q_two) ''GPU'' 3 None = ([], Inl AssertionError)"
proof -
  have h: "''GPU'' \<notin> set [''CPU'', ''QPU'']" by simp
  from solve_qubo_bad_sampler [OF h] h show ?thesis by blast
qed

text \<open>
  C10. Every input \<^verbatim>\<open>Q\<close> that is not a numpy array, a list of lists holding a
  square grid of numbers included, fails the type assertion of \<^verbatim>\<open>solve_qubo\<close>:
  AssertionError with an empty trace, so before any solver object is constructed and
  before any solve attempt.
\<close>

theorem solve_qubo_not_ndarray:
  assumes "\<forall>a. Q \<noteq> NdArray a"
  shows "solve_qubo env Q sampler k cs = ([], Inl AssertionError)"
  using assms by (cases Q) (simp_all add: solve_qubo_def)

theorem solve_qubo_not_ndarray_witness:
  "solve_qubo (replay_env ensemble_two)
     (PyList [PyList [PyNum (-1), PyNum 2], PyList [PyNum 0, PyNum (-1)]]) ''CPU'' 3 None =
   ([], Inl AssertionError)"
  using solve_qubo_not_ndarray
    [of "PyList [PyList [PyNum (-1), PyNum 2], PyList [PyNum 0, PyNum (-1)]]"]
  by simp

text \<open>
  C4, as the specification states it, fails: nothing in \<^verbatim>\<open>solve_qubo\<close> looks at
  the second axis. On a 1 x 2 array with the local backend the routine prints its
  progress line, constructs the sampler and submits the array.
\<close>

theorem solve_qubo_non_square_counterexample:
  "is_non_square Q_wide \<and>
   take 4 (fst (solve_qubo (replay_env ensemble_two) (NdArray Q_wide) ''CPU'' 3 None)) =
     [PrintSolving 1 1 ''CPU'', ReadClock, NewSimulatedAnnealingSampler,
      SampleQubo Q_wide 3 None] \<and>
   solve_qubo (replay_env ensemble_two) (NdArray Q_wide) ''CPU'' 3 None \<noteq> ([], Inl AssertionError)"
  by (simp add: is_non_square_def item_reals_def solve_qubo_def replay_env_def shape0_def
      count_nonzero_def reduce_response_def py_min_def Q_wide_def ensemble_two_def)

text \<open>
  C4, amended. A non-square matrix with a supported backend selector is not rejected by
  the validation of \<^verbatim>\<open>solve_qubo\<close>: both assertions pass, and the routine prints
  its progress line and reads the clock. On the local backend it then constructs the
  sampler and submits the matrix, unchanged, with \<^verbatim>\<open>num_reads=k\<close>. On the hardware
  backend it reaches the construction of the hardware sampler when a chain strength is
  supplied or \<^verbatim>\<open>int(10 * np.max(np.abs(Q)))\<close> has a value; otherwise it raises the
  ValueError or OverflowError of that computation, after the progress line and before
  any solver object is constructed.
\<close>

theorem solve_qubo_non_square_not_rejected:
  assumes "is_non_square Q" and "sampler \<in> set [''CPU'', ''QPU'']"
  shows "(\<exists>rest. fst (solve_qubo env (NdArray Q) sampler k cs) =
            PrintSolving (shape Q ! 0) (count_nonzero Q) sampler # ReadClock # rest) \<and>
         (sampler = ''CPU'' \<longrightarrow>
            constructs_solver (fst (solve_qubo env (NdArray Q) sampler k cs)) \<and>
            sample_qubo_calls (fst (solve_qubo env (NdArray Q) sampler k cs)) = [(Q, k, None)]) \<and>
         (sampler = ''QPU'' \<and> (cs \<noteq> None \<or> (\<exists>c. default_chain_strength Q = Inr c)) \<longrightarrow>
            constructs_solver (fst (solve_qubo env (NdArray Q) sampler k cs))) \<and>
         (sampler = ''QPU'' \<and> cs = None \<and> (\<forall>c. default_chain_strength Q \<noteq> Inr c) \<longrightarrow>
            (\<exists>e. (e = ValueError \<or> e = OverflowError) \<and>
               solve_qubo env (NdArray Q) sampler k cs =
                 ([PrintSolving (shape Q ! 0) (count_nonzero Q) sampler, ReadClock], Inl e)))"
proof -
  from assms(1) obtain m n where sh: "shape Q = [m, n]"
    by (auto simp: is_non_square_def split: list.splits)
  from assms(2) consider "sampler = ''CPU''" | "sampler = ''QPU''" by auto
  then show ?thesis
  proof cases
    case 1
    from trace_cpu [OF sh, of env k cs] obtain rest where
      r: "fst (solve_qubo env (NdArray Q) ''CPU'' k cs) =
        [PrintSolving m (count_nonzero Q) ''CPU'', ReadClock, NewSimulatedAnnealingSampler,
         SampleQubo Q k None] @ rest" by blast
    have c: "sample_qubo_calls (fst (solve_qubo env (NdArray Q) ''CPU'' k cs)) = [(Q, k, None)]"
      using sh by (simp add: solve_qubo_def shape0_def Let_def fst_reduce_response split: sum.splits)
    from r c 1 sh show ?thesis by (simp add: constructs_solver_def)
  next
    case 2
    show ?thesis
    proof (cases "cs \<noteq> None \<or> (\<exists>c. default_chain_strength Q = Inr c)")
      case True
      from trace_qpu [OF sh True, of env k] obtain rest where
        "fst (solve_qubo env (NdArray Q) ''QPU'' k cs) =
          [PrintSolving m (count_nonzero Q) ''QPU'', ReadClock, NewDWaveSampler] @ rest" by blast
      with 2 sh True show ?thesis by (auto simp: constructs_solver_def)
    next
      case False
      then have cs: "cs = None" and no: "\<forall>c. default_chain_strength Q \<noteq> Inr c" by auto
      from no obtain e where e: "default_chain_strength Q = Inl e"
        by (cases "default_chain_strength Q") auto
      from default_chain_strength_error [OF e] raise_qpu [OF sh e, of env k] 2 cs sh no
      show ?thesis by auto
    qed
  qed
qed

theorem solve_qubo_non_square_not_rejected_witness:
  "is_non_square Q_wide \<and> ''CPU'' \<in> set [''CPU'', ''QPU''] \<and>
   (\<exists>rest. fst (solve_qubo (replay_env ensemble_two) (NdArray Q_wide) ''CPU'' 3 None) =
            PrintSolving (shape Q_wide ! 0) (count_nonzero Q_wide) ''CPU'' # ReadClock # rest) \<and>
   constructs_solver (fst (solve_qubo (replay_env ensemble_two) (NdArray Q_wide) ''CPU'' 3 None)) \<and>
   sample_qubo_calls (fst (solve_qubo (replay_env ensemble_two) (NdArray Q_wide) ''CPU'' 3 None)) =
     [(Q_wide, 3, None)] \<and>
   is_non_square Q_none \<and> ''QPU'' \<in> set [''CPU'', ''QPU''] \<and>
   default_chain_strength Q_none = Inl ValueError \<and>
   (\<exists>e. (e = ValueError \<or> e = OverflowError) \<and>
      solve_qubo (replay_env ensemble_two) (NdArray Q_none) ''QPU'' 3 None =
        ([PrintSolving (shape Q_none ! 0) (count_nonzero Q_none) ''QPU'', ReadClock], Inl e))"
proof -
  have h: "is_non_square Q_wide" "''CPU'' \<in> set [''CPU'', ''QPU'']"
    by (simp_all add: is_non_square_def item_reals_def Q_wide_def)
  have g: "is_non_square Q_none" "''QPU'' \<in> set [''CPU'', ''QPU'']"
    by (simp_all add: is_non_square_def item_reals_def Q_none_def)
  have d: "default_chain_strength Q_none = Inl ValueError"
    by (simp add: default_chain_strength_def np_max_def np_abs_def Q_none_def)
  from solve_qubo_non_square_not_rejected [OF h, of "replay_env ensemble_two" 3 None]
    solve_qubo_non_square_not_rejected [OF g, of "replay_env ensemble_two" 3 None] h g d
  show ?thesis by simp
qed

section \<open>The chain strength\<close>

text \<open>
  The default chain strength at the edges of the dtype: the float64 product is rounded
  before it is truncated (the float64 nearest to 0.7 lies below 0.7, and ten times it
  rounds to 7), the integer product and the absolute value wrap around, an infinity raises OverflowError, NaN
  and an array without entries raise ValueError.
\<close>

lemma default_chain_strength_rounds:
  "default_chain_strength
     \<lparr>shape = [1, 1], items = Float64 [Finite (3152519739159347 / 2 ^ 52)]\<rparr> = Inr 7"
proof -
  define x :: real where "x = 3152519739159347 / 2 ^ 52"
  have p: "\<bar>x\<bar> = x" by (simp add: x_def)
  have r: "round64 (10 * x) = Finite 7" unfolding x_def by (rule round64_07)
  have "default_chain_strength \<lparr>shape = [1, 1], items = Float64 [Finite x]\<rparr> = Inr 7"
    by (simp add: default_chain_strength_def np_max_def np_abs_def p r py_trunc_def)
  then show ?thesis unfolding x_def .
qed

lemma default_chain_strength_wraps:
  "default_chain_strength \<lparr>shape = [1, 1], items = IntItems int64 [2 ^ 62]\<rparr> = Inr (- (2 ^ 63))"
  by (simp add: default_chain_strength_def np_max_def np_abs_def)

lemma default_chain_strength_least:
  "default_chain_strength \<lparr>shape = [1, 1], items = IntItems int8 [- 128]\<rparr> = Inr 0"
  by (simp add: default_chain_strength_def np_max_def np_abs_def)

lemma default_chain_strength_infinite:
  "default_chain_strength \<lparr>shape = [1, 1], items = Float64 [NegInf]\<rparr> = Inl OverflowError"
  by (simp add: default_chain_strength_def np_max_def np_abs_def)

lemma default_chain_strength_nan:
  "default_chain_strength \<lparr>shape = [1, 2], items = Float64 [Finite 1, NaN]\<rparr> = Inl ValueError"
  by (simp add: default_chain_strength_def np_max_def np_abs_def)





text \<open>
  C9. On the local backend the chain-strength argument has no effect: for every input,
  repeat count and pair of chain-strength values, the trace and the result of
  \<^verbatim>\<open>solve_qubo\<close> are the same, and the \<^verbatim>\<open>sample_qubo\<close> call of the trace
  (there is one as soon as the input is an array with at least one axis) carries no
  chain strength.
\<close>

theorem solve_qubo_cpu_ignores_chain_strength:
  "solve_qubo env Q ''CPU'' k cs1 = solve_qubo env Q ''CPU'' k cs2 \<and>
   sample_qubo_calls (fst (solve_qubo env Q ''CPU'' k cs1)) =
     (case Q of NdArray a \<Rightarrow> (if shape a = [] then [] else [(a, k, None)]) | _ \<Rightarrow> [])"
proof
  show "solve_qubo env Q ''CPU'' k cs1 = solve_qubo env Q ''CPU'' k cs2"
    by (simp add: solve_qubo_def Let_def split: py_value.splits sum.splits)
  show "sample_qubo_calls (fst (solve_qubo env Q ''CPU'' k cs1)) =
     (case Q of NdArray a \<Rightarrow> (if shape a = [] then [] else [(a, k, None)]) | _ \<Rightarrow> [])"
    by (simp add: solve_qubo_def shape0_def Let_def fst_reduce_response
        split: py_value.splits list.splits sum.splits)
qed

theorem solve_qubo_cpu_ignores_chain_strength_witness:
  "solve_qubo (replay_env ensemble_two) (NdArray Q_two) ''CPU'' 3 None =
   solve_qubo (replay_env ensemble_two) (NdArray Q_two) ''CPU'' 3 (Some 7) \<and>
   sample_qubo_calls (fst (solve_qubo (replay_env ensemble_two) (NdArray Q_two) ''CPU'' 3 None)) =
     [(Q_two, 3, None)]"
proof -
  have c: "(case NdArray Q_two of
              NdArray a \<Rightarrow> (if shape a = [] then [] else [(a, 3::int, None::real option)])
            | _ \<Rightarrow> []) = [(Q_two, 3, None)]"
    by (simp add: Q_two_def)
  show ?thesis
    using solve_qubo_cpu_ignores_chain_strength
      [of "replay_env ensemble_two" "NdArray Q_two" 3 None "Some 7"]
    unfolding c by blast
qed

section \<open>What the ensemble holds\<close>

text \<open>
  C7. On the local backend, for a square matrix and a repeat count \<open>k \<ge> 1\<close>: the
  routine hands the matrix and \<^verbatim>\<open>num_reads=k\<close> to the local annealer and returns
  the annealer's answer unchanged as its ensemble. So when the annealer answers with one
  entry per requested repeat, as the specification describes it, \<^verbatim>\<open>solve_qubo\<close>
  returns, and the ensemble it returns has exactly \<open>k\<close> entries.
\<close>

theorem solve_qubo_cpu_ensemble_size:
  assumes "is_square Q" and "1 \<le> k"
    and "sample_cpu env Q k = Inr r" and "one_entry_per_read k r"
  shows "\<exists>tr solution response.
           solve_qubo env (NdArray Q) ''CPU'' k cs = (tr, Inr (solution, response)) \<and>
           response = r \<and> length (data response) = nat k"
proof -
  from assms(1) obtain n where sh: "shape Q = [n, n]"
    by (auto simp: is_square_def split: list.splits)
  from assms(4) have len: "length (data r) = nat k" by (simp add: one_entry_per_read_def)
  with assms(2) obtain x xs where d: "data r = x # xs" by (cases "data r") auto
  then have "py_min energy (data r) = Inr (min_loop energy x xs)" by (simp add: py_min_def)
  with sh assms(3) len show ?thesis
    by (simp add: solve_qubo_def shape0_def Let_def reduce_response_def)
qed

theorem solve_qubo_cpu_ensemble_size_witness:
  "is_square Q_two \<and> (1::int) \<le> 3 \<and>
   sample_cpu (replay_env ensemble_two) Q_two 3 = Inr ensemble_two \<and>
   one_entry_per_read 3 ensemble_two \<and>
   (\<exists>tr solution response.
      solve_qubo (replay_env ensemble_two) (NdArray Q_two) ''CPU'' 3 None =
        (tr, Inr (solution, response)) \<and>
      response = ensemble_two \<and> length (data response) = nat 3)"
proof -
  have h: "is_square Q_two" "(1::int) \<le> 3"
    "sample_cpu (replay_env ensemble_two) Q_two 3 = Inr ensemble_two"
    "one_entry_per_read 3 ensemble_two"
    by (simp_all add: is_square_def item_reals_def Q_two_def replay_env_def one_entry_per_read_def
        ensemble_two_def)
  from solve_qubo_cpu_ensemble_size [OF h, of None] h show ?thesis by blast
qed

text \<open>
  C2. For a square matrix, when the samplers report as energy of an entry the QUBO
  objective of its sample (the sum over \<open>i \<le> j\<close> of \<open>x\<^sub>i * Q[i,j] * x\<^sub>j\<close>), as the
  specification describes them: whenever \<^verbatim>\<open>solve_qubo\<close> returns, every entry of
  the returned ensemble has that energy, the returned solution is one of the entries,
  and no entry of the ensemble has a smaller objective than the solution.
\<close>

theorem solve_qubo_minimizes_objective:
  assumes "is_square Q" and "energy_contract env Q"
    and "solve_qubo env (NdArray Q) sampler k cs = (tr, Inr (solution, response))"
  shows "(\<forall>e \<in> set (data response). energy e = qubo_objective Q (sample e)) \<and>
         solution \<in> set (data response) \<and>
         (\<forall>e \<in> set (data response).
            qubo_objective Q (sample solution) \<le> qubo_objective Q (sample e))"
proof -
  have m: "py_min energy (data response) = Inr solution"
    using assms(3) by (rule solve_qubo_returns(1))
  from solve_qubo_returns(2) [OF assms(3)] assms(2)
  have r: "reports_objective Q response"
    by (auto simp: energy_contract_def)
  from py_min_Inr [OF m] have mem: "solution \<in> set (data response)"
    and le: "\<forall>e \<in> set (data response). energy solution \<le> energy e" by auto
  from r have eq: "\<forall>e \<in> set (data response). energy e = qubo_objective Q (sample e)"
    by (simp add: reports_objective_def)
  from eq mem le show ?thesis by (metis)
qed

theorem solve_qubo_minimizes_objective_witness:
  "is_square Q_two \<and> energy_contract (replay_env ensemble_two) Q_two \<and>
   solve_qubo (replay_env ensemble_two) (NdArray Q_two) ''CPU'' 3 None =
     ([PrintSolving 2 3 ''CPU'', ReadClock, NewSimulatedAnnealingSampler,
       SampleQubo Q_two 3 None, ReadClock, PrintSolved],
      Inr (\<lparr>sample = [0 \<mapsto> 1, 1 \<mapsto> 0], energy = -1\<rparr>, ensemble_two)) \<and>
   reports_objective Q_two ensemble_two \<and>
   qubo_objective Q_two [0 \<mapsto> 1, 1 \<mapsto> 0] = -1 \<and>
   qubo_objective Q_two [0 \<mapsto> 1, 1 \<mapsto> 1] = 0 \<and>
   \<lparr>sample = [0 \<mapsto> 1, 1 \<mapsto> 0], energy = -1\<rparr> \<in> set (data ensemble_two)"
proof -
  have sq: "is_square Q_two" by (simp add: is_square_def item_reals_def Q_two_def)
  have ec: "energy_contract (replay_env ensemble_two) Q_two"
    using reports_two by (simp add: energy_contract_def replay_env_def)
  have v: "qubo_objective Q_two [0 \<mapsto> 1, 1 \<mapsto> 0] = -1" "qubo_objective Q_two [0 \<mapsto> 1, 1 \<mapsto> 1] = 0"
    by (simp_all add: qubo_objective_def Q_two_def entry_def item_reals_def var_value_def upt_rec)
  from solve_qubo_minimizes_objective [OF sq ec run_two_cpu [of None]] sq ec run_two_cpu [of None]
    reports_two v
  show ?thesis by blast
qed

section \<open>Entries below the diagonal\<close>




end
